theory Spec2Isabelle
  imports Main
begin

section \<open>Go values\<close>

text \<open>
  A Go slice is either \<open>nil\<close> or a sequence of elements; the two are told apart because
  one claim is about which of them an accessor returns. \<open>None\<close> is the nil slice.
\<close>

type_synonym 'a slice = "'a list option"

definition elems :: "'a slice \<Rightarrow> 'a list" where
  \<comment> \<open>the elements a \<open>range\<close> loop visits; \<open>string(resp[:])\<close> for a byte slice\<close>
  "elems s = (case s of None \<Rightarrow> [] | Some xs \<Rightarrow> xs)"

definition append_slice :: "'a slice \<Rightarrow> 'a list \<Rightarrow> 'a slice" where
  \<comment> \<open>Go's \<open>append(s, xs...)\<close>: appending nothing to nil leaves nil\<close>
  "append_slice s xs =
     (case s of
        None \<Rightarrow> (if xs = [] then None else Some xs)
      | Some ys \<Rightarrow> Some (ys @ xs))"

text \<open>
  An \<open>error\<close> value is either one made by \<open>fmt.Errorf\<close> in this package or one handed
  over by the standard library (net/http, io/ioutil, encoding/json); both carry their
  message. A nil error is \<open>None :: error option\<close>.
\<close>

datatype error = Errorf string | LibraryError string

text \<open>A call either returns its results or panics (a nil pointer dereference).\<close>

datatype 'a outcome = Panic | Return 'a

subsection \<open>Formatting with \<open>%v\<close>\<close>

fun show_nat :: "nat \<Rightarrow> string" where
  "show_nat n =
     (if n < 10 then [''0123456789'' ! n]
      else show_nat (n div 10) @ [''0123456789'' ! (n mod 10)])"

declare show_nat.simps [simp del]

definition show_int :: "int \<Rightarrow> string" where
  "show_int i = (if i < 0 then ''-'' @ show_nat (nat (- i)) else show_nat (nat i))"

subsection \<open>\<open>strings.TrimSuffix\<close> and \<open>strings.TrimPrefix\<close>\<close>

definition strings_HasSuffix :: "string \<Rightarrow> string \<Rightarrow> bool" where
  "strings_HasSuffix s suffix =
     (length s \<ge> length suffix \<and> drop (length s - length suffix) s = suffix)"

definition strings_HasPrefix :: "string \<Rightarrow> string \<Rightarrow> bool" where
  "strings_HasPrefix s prefix = (length s \<ge> length prefix \<and> take (length prefix) s = prefix)"

definition strings_TrimSuffix :: "string \<Rightarrow> string \<Rightarrow> string" where
  "strings_TrimSuffix s suffix =
     (if strings_HasSuffix s suffix then take (length s - length suffix) s else s)"

definition strings_TrimPrefix :: "string \<Rightarrow> string \<Rightarrow> string" where
  "strings_TrimPrefix s prefix =
     (if strings_HasPrefix s prefix then drop (length prefix) s else s)"

definition quote :: string where
  \<comment> \<open>the one-byte string literal \<open>"\""\<close> of \<open>GetRegionName\<close>\<close>
  "quote = [CHR 0x22]"

section \<open>The entities\<close>

text \<open>
  Modelled from the spec: the struct declarations \<open>Service\<close>, \<open>Environment\<close>,
  \<open>Container\<close>, \<open>Host\<close>, \<open>Stack\<close> and \<open>Network\<close> are not in metadata.go. The records
  carry the key attributes of the spec's data model, under the field names metadata.go
  reads (\<open>env.RegionName\<close>, \<open>env.Name\<close>, \<open>env.Services\<close>, \<open>svc.StackName\<close>, \<open>svc.Name\<close>,
  \<open>container.StackName\<close>, \<open>container.ServiceName\<close>, \<open>host.UUID\<close>).
\<close>

record Service =
  Name :: string
  StackName :: string

record Environment =
  Name :: string
  RegionName :: string
  Services :: "Service slice"

record Container =
  Name :: string
  ServiceName :: string
  StackName :: string

record Host =
  UUID :: string
  Name :: string

record Stack =
  Name :: string

record Network =
  Name :: string

definition zero_Service :: Service where
  \<comment> \<open>\<open>var service Service\<close>\<close>
  "zero_Service = \<lparr>Service.Name = '''', Service.StackName = ''''\<rparr>"

definition zero_Container :: Container where
  "zero_Container =
     \<lparr>Container.Name = '''', Container.ServiceName = '''', Container.StackName = ''''\<rparr>"

definition zero_Host :: Host where
  \<comment> \<open>\<open>var host Host\<close>\<close>
  "zero_Host = \<lparr>Host.UUID = '''', Host.Name = ''''\<rparr>"

section \<open>The transport and the standard library\<close>

record request =
  Method :: string
  URL :: string
  Header :: "(string \<times> string) list"

definition Header_Add :: "request \<Rightarrow> string \<Rightarrow> string \<Rightarrow> request" where
  "Header_Add req k v = req\<lparr>Header := Header req @ [(k, v)]\<rparr>"

text \<open>
  A response carries its status code and its body; the body is what reading it to the
  end yields: the bytes read and the error that stopped the read, if any.
\<close>

record response =
  StatusCode :: int
  Body :: "string \<times> error option"

definition ioutil_ReadAll :: "string \<times> error option \<Rightarrow> char slice \<times> error option" where
  "ioutil_ReadAll body = (Some (fst body), snd body)"

text \<open>
  \<open>http.Client.Do\<close> talks to the metadata service, whose answers may change from one
  request to the next: it runs on a state \<open>'st\<close> of the outside world and returns the
  pair \<open>(resp, err)\<close> of the Go signature.
\<close>

record 'st http_Client =
  Do :: "request \<Rightarrow> 'st \<Rightarrow> (response option \<times> error option) \<times> 'st"

record 'st client =
  url :: string
  ip :: string
  client :: "'st http_Client"

text \<open>
  The package-level functions of the standard library that metadata.go calls are
  parameters. \<open>http.NewRequest\<close> returns the pair \<open>(req, err)\<close>. \<open>json.Unmarshal(data, &v)\<close>
  takes the bytes and the current value of \<open>v\<close> and returns the value it leaves in \<open>v\<close>
  together with its error; there is one field per target type.
\<close>

record stdlib =
  http_NewRequest :: "string \<Rightarrow> string \<Rightarrow> request option \<times> error option"
  json_Unmarshal_Environments :: "string \<Rightarrow> Environment slice \<Rightarrow> Environment slice \<times> error option"
  json_Unmarshal_Services :: "string \<Rightarrow> Service slice \<Rightarrow> Service slice \<times> error option"
  json_Unmarshal_Stacks :: "string \<Rightarrow> Stack slice \<Rightarrow> Stack slice \<times> error option"
  json_Unmarshal_Containers :: "string \<Rightarrow> Container slice \<Rightarrow> Container slice \<times> error option"
  json_Unmarshal_Hosts :: "string \<Rightarrow> Host slice \<Rightarrow> Host slice \<times> error option"
  json_Unmarshal_Networks :: "string \<Rightarrow> Network slice \<Rightarrow> Network slice \<times> error option"

section \<open>metadata.go\<close>

subsection \<open>SendRequest\<close>

definition status_error :: "int \<Rightarrow> string \<Rightarrow> error" where
  \<comment> \<open>\<open>fmt.Errorf("Error %v accessing %v path", resp.StatusCode, path)\<close>\<close>
  "status_error code path =
     Errorf (''Error '' @ show_int code @ '' accessing '' @ path @ '' path'')"

definition SendRequest_req :: "'st client \<Rightarrow> request \<Rightarrow> request" where
  \<comment> \<open>lines 76 to 79: the headers added to the request before it is sent\<close>
  "SendRequest_req m req =
     (let req1 = Header_Add req ''Accept'' ''application/json''
      in if ip m \<noteq> '''' then Header_Add req1 ''X-Forwarded-For'' (ip m) else req1)"

definition SendRequest ::
  "stdlib \<Rightarrow> 'st client \<Rightarrow> string \<Rightarrow> 'st \<Rightarrow> (char slice \<times> error option) outcome \<times> 'st"
where
  \<comment> \<open>\<open>req.Header.Add\<close> dereferences \<open>req\<close> whatever \<open>err\<close> is; \<open>err\<close> is then
      assigned again by \<open>resp, err := m.client.Do(req)\<close>\<close>
  "SendRequest L m path s =
     (case http_NewRequest L ''GET'' (url m @ path) of
        (None, err) \<Rightarrow> (Panic, s)
      | (Some req, err) \<Rightarrow>
          (case Do (client m) (SendRequest_req m req) s of
             ((resp, Some err'), s') \<Rightarrow> (Return (None, Some err'), s')
           | ((None, None), s') \<Rightarrow> (Panic, s')
           | ((Some resp, None), s') \<Rightarrow>
               if StatusCode resp \<noteq> 200
               then (Return (None, Some (status_error (StatusCode resp) path)), s')
               else (case ioutil_ReadAll (Body resp) of
                       (body, Some err') \<Rightarrow> (Return (None, Some err'), s')
                     | (body, None) \<Rightarrow> (Return (body, None), s'))))"

subsection \<open>GetVersion and GetRegionName\<close>

definition GetVersion ::
  "stdlib \<Rightarrow> 'st client \<Rightarrow> 'st \<Rightarrow> (string \<times> error option) outcome \<times> 'st"
where
  "GetVersion L m s =
     (case SendRequest L m ''/version'' s of
        (Panic, s') \<Rightarrow> (Panic, s')
      | (Return (resp, Some err), s') \<Rightarrow> (Return ('''', Some err), s')
      | (Return (resp, None), s') \<Rightarrow> (Return (elems resp, None), s'))"

definition unquote :: "string \<Rightarrow> string" where
  \<comment> \<open>lines 111 and 112 of \<open>GetRegionName\<close>: the suffix is trimmed first, then the prefix\<close>
  "unquote regionName = strings_TrimPrefix (strings_TrimSuffix regionName quote) quote"

definition GetRegionName ::
  "stdlib \<Rightarrow> 'st client \<Rightarrow> 'st \<Rightarrow> (string \<times> error option) outcome \<times> 'st"
where
  "GetRegionName L m s =
     (case SendRequest L m ''/region_name'' s of
        (Panic, s') \<Rightarrow> (Panic, s')
      | (Return (resp, Some err), s') \<Rightarrow> (Return ('''', Some err), s')
      | (Return (resp, None), s') \<Rightarrow> (Return (unquote (elems resp), None), s'))"

subsection \<open>The bulk list accessors\<close>

text \<open>
  Each declares a nil slice, returns it with the error of a failed request, and otherwise
  returns what \<open>json.Unmarshal\<close> left in it, with the decoder's error if it has one.
\<close>

definition GetServices ::
  "stdlib \<Rightarrow> 'st client \<Rightarrow> 'st \<Rightarrow> (Service slice \<times> error option) outcome \<times> 'st"
where
  "GetServices L m s =
     (case SendRequest L m ''/services'' s of
        (Panic, s') \<Rightarrow> (Panic, s')
      | (Return (resp, Some err), s') \<Rightarrow> (Return (None, Some err), s')
      | (Return (resp, None), s') \<Rightarrow>
          (case json_Unmarshal_Services L (elems resp) None of
             (services, Some err) \<Rightarrow> (Return (services, Some err), s')
           | (services, None) \<Rightarrow> (Return (services, None), s')))"

definition GetStacks ::
  "stdlib \<Rightarrow> 'st client \<Rightarrow> 'st \<Rightarrow> (Stack slice \<times> error option) outcome \<times> 'st"
where
  "GetStacks L m s =
     (case SendRequest L m ''/stacks'' s of
        (Panic, s') \<Rightarrow> (Panic, s')
      | (Return (resp, Some err), s') \<Rightarrow> (Return (None, Some err), s')
      | (Return (resp, None), s') \<Rightarrow>
          (case json_Unmarshal_Stacks L (elems resp) None of
             (stacks, Some err) \<Rightarrow> (Return (stacks, Some err), s')
           | (stacks, None) \<Rightarrow> (Return (stacks, None), s')))"

definition GetContainers ::
  "stdlib \<Rightarrow> 'st client \<Rightarrow> 'st \<Rightarrow> (Container slice \<times> error option) outcome \<times> 'st"
where
  "GetContainers L m s =
     (case SendRequest L m ''/containers'' s of
        (Panic, s') \<Rightarrow> (Panic, s')
      | (Return (resp, Some err), s') \<Rightarrow> (Return (None, Some err), s')
      | (Return (resp, None), s') \<Rightarrow>
          (case json_Unmarshal_Containers L (elems resp) None of
             (containers, Some err) \<Rightarrow> (Return (containers, Some err), s')
           | (containers, None) \<Rightarrow> (Return (containers, None), s')))"

definition GetHosts ::
  "stdlib \<Rightarrow> 'st client \<Rightarrow> 'st \<Rightarrow> (Host slice \<times> error option) outcome \<times> 'st"
where
  "GetHosts L m s =
     (case SendRequest L m ''/hosts'' s of
        (Panic, s') \<Rightarrow> (Panic, s')
      | (Return (resp, Some err), s') \<Rightarrow> (Return (None, Some err), s')
      | (Return (resp, None), s') \<Rightarrow>
          (case json_Unmarshal_Hosts L (elems resp) None of
             (hosts, Some err) \<Rightarrow> (Return (hosts, Some err), s')
           | (hosts, None) \<Rightarrow> (Return (hosts, None), s')))"

definition GetNetworks ::
  "stdlib \<Rightarrow> 'st client \<Rightarrow> 'st \<Rightarrow> (Network slice \<times> error option) outcome \<times> 'st"
where
  "GetNetworks L m s =
     (case SendRequest L m ''/networks'' s of
        (Panic, s') \<Rightarrow> (Panic, s')
      | (Return (resp, Some err), s') \<Rightarrow> (Return (None, Some err), s')
      | (Return (resp, None), s') \<Rightarrow>
          (case json_Unmarshal_Networks L (elems resp) None of
             (networks, Some err) \<Rightarrow> (Return (networks, Some err), s')
           | (networks, None) \<Rightarrow> (Return (networks, None), s')))"

subsection \<open>The resolution cascade\<close>

fun scan_services :: "string \<Rightarrow> string \<Rightarrow> Service list \<Rightarrow> Service option" where
  \<comment> \<open>lines 214 to 218: the inner loop; \<open>Some svc\<close> is \<open>return svc, nil\<close>\<close>
  "scan_services stackName svcName [] = None"
| "scan_services stackName svcName (svc # svcs) =
     (if stackName = Service.StackName svc \<and> svcName = Service.Name svc then Some svc
      else scan_services stackName svcName svcs)"

fun scan_environments ::
  "string \<Rightarrow> string \<Rightarrow> string \<Rightarrow> string \<Rightarrow> Environment list \<Rightarrow> Service option"
where
  \<comment> \<open>lines 212 to 220: the outer loop goes on to the next environment when the inner
      loop ends without returning\<close>
  "scan_environments regionName envName stackName svcName [] = None"
| "scan_environments regionName envName stackName svcName (env # envs) =
     (if regionName = Environment.RegionName env \<and> envName = Environment.Name env
      then (case scan_services stackName svcName (elems (Environment.Services env)) of
              Some svc \<Rightarrow> Some svc
            | None \<Rightarrow> scan_environments regionName envName stackName svcName envs)
      else scan_environments regionName envName stackName svcName envs)"

definition GetServiceByRegionEnvironment ::
  "stdlib \<Rightarrow> 'st client \<Rightarrow> string \<Rightarrow> string \<Rightarrow> string \<Rightarrow> string \<Rightarrow> 'st
     \<Rightarrow> (Service \<times> error option) outcome \<times> 'st"
where
  "GetServiceByRegionEnvironment L m regionName envName stackName svcName s =
     (case SendRequest L m ''/environments'' s of
        (Panic, s') \<Rightarrow> (Panic, s')
      | (Return (resp, Some err), s') \<Rightarrow> (Return (zero_Service, Some err), s')
      | (Return (resp, None), s') \<Rightarrow>
          (case json_Unmarshal_Environments L (elems resp) None of
             (environments, Some err) \<Rightarrow> (Return (zero_Service, Some err), s')
           | (environments, None) \<Rightarrow>
               (case scan_environments regionName envName stackName svcName (elems environments) of
                  Some svc \<Rightarrow> (Return (svc, None), s')
                | None \<Rightarrow> (Return (zero_Service, None), s'))))"

definition GetServiceByEnvironment ::
  "stdlib \<Rightarrow> 'st client \<Rightarrow> string \<Rightarrow> string \<Rightarrow> string \<Rightarrow> 'st
     \<Rightarrow> (Service \<times> error option) outcome \<times> 'st"
where
  "GetServiceByEnvironment L m envName stackName svcName s =
     (case GetRegionName L m s of
        (Panic, s') \<Rightarrow> (Panic, s')
      | (Return (regionName, Some err), s') \<Rightarrow> (Return (zero_Service, Some err), s')
      | (Return (regionName, None), s') \<Rightarrow>
          GetServiceByRegionEnvironment L m regionName envName stackName svcName s')"

fun collect_services :: "string \<Rightarrow> string \<Rightarrow> Service slice \<Rightarrow> Environment list \<Rightarrow> Service slice" where
  \<comment> \<open>lines 271 to 275, with \<open>services\<close> as the accumulator\<close>
  "collect_services regionName envName services [] = services"
| "collect_services regionName envName services (env # envs) =
     (if regionName = Environment.RegionName env \<and> envName = Environment.Name env
      then collect_services regionName envName
             (append_slice services (elems (Environment.Services env))) envs
      else collect_services regionName envName services envs)"

definition GetServicesByRegionEnvironment ::
  "stdlib \<Rightarrow> 'st client \<Rightarrow> string \<Rightarrow> string \<Rightarrow> 'st
     \<Rightarrow> (Service slice \<times> error option) outcome \<times> 'st"
where
  "GetServicesByRegionEnvironment L m regionName envName s =
     (case SendRequest L m ''/environments'' s of
        (Panic, s') \<Rightarrow> (Panic, s')
      | (Return (resp, Some err), s') \<Rightarrow> (Return (None, Some err), s')
      | (Return (resp, None), s') \<Rightarrow>
          (case json_Unmarshal_Environments L (elems resp) None of
             (environments, Some err) \<Rightarrow> (Return (None, Some err), s')
           | (environments, None) \<Rightarrow>
               (Return (collect_services regionName envName None (elems environments), None), s')))"

fun filter_containers ::
  "string \<Rightarrow> string \<Rightarrow> Container slice \<Rightarrow> Container list \<Rightarrow> Container slice"
where
  \<comment> \<open>lines 322 to 326, with \<open>serviceContainers\<close> as the accumulator\<close>
  "filter_containers serviceName stackName serviceContainers [] = serviceContainers"
| "filter_containers serviceName stackName serviceContainers (container # containers) =
     (if Container.StackName container = stackName \<and> Container.ServiceName container = serviceName
      then filter_containers serviceName stackName
             (append_slice serviceContainers [container]) containers
      else filter_containers serviceName stackName serviceContainers containers)"

definition GetServiceContainers ::
  "stdlib \<Rightarrow> 'st client \<Rightarrow> string \<Rightarrow> string \<Rightarrow> 'st
     \<Rightarrow> (Container slice \<times> error option) outcome \<times> 'st"
where
  \<comment> \<open>\<open>serviceContainers\<close> starts as \<open>[]Container{}\<close>, which is not nil\<close>
  "GetServiceContainers L m serviceName stackName s =
     (case GetContainers L m s of
        (Panic, s') \<Rightarrow> (Panic, s')
      | (Return (containers, Some err), s') \<Rightarrow> (Return (Some [], Some err), s')
      | (Return (containers, None), s') \<Rightarrow>
          (Return (filter_containers serviceName stackName (Some []) (elems containers), None), s'))"

definition host_not_found :: "string \<Rightarrow> error" where
  \<comment> \<open>\<open>fmt.Errorf("could not find host by UUID %v", UUID)\<close>\<close>
  "host_not_found uuid = Errorf (''could not find host by UUID '' @ uuid)"

fun scan_hosts :: "string \<Rightarrow> Host list \<Rightarrow> Host option" where
  \<comment> \<open>lines 350 to 354; \<open>Some host\<close> is \<open>return host, nil\<close>\<close>
  "scan_hosts uuid [] = None"
| "scan_hosts uuid (host # hosts) =
     (if Host.UUID host = uuid then Some host else scan_hosts uuid hosts)"

definition GetHost ::
  "stdlib \<Rightarrow> 'st client \<Rightarrow> string \<Rightarrow> 'st \<Rightarrow> (Host \<times> error option) outcome \<times> 'st"
where
  \<comment> \<open>the loop variable shadows the outer \<open>host\<close>, which is still the zero value at the
      last line\<close>
  "GetHost L m uuid s =
     (case GetHosts L m s of
        (Panic, s') \<Rightarrow> (Panic, s')
      | (Return (hosts, Some err), s') \<Rightarrow> (Return (zero_Host, Some err), s')
      | (Return (hosts, None), s') \<Rightarrow>
          (case scan_hosts uuid (elems hosts) of
             Some host \<Rightarrow> (Return (host, None), s')
           | None \<Rightarrow> (Return (zero_Host, Some (host_not_found uuid)), s')))"

section \<open>The change-notification loop\<close>

text \<open>
  Modelled from the spec: \<open>OnChange\<close> is declared in the \<open>Client\<close> interface of
  metadata.go (line 14), but its body is not in that file. The loop below follows the
  spec's algorithm: a last observed version, initialized empty; on each tick the current
  version is fetched (with \<open>GetVersion\<close>, which is in metadata.go); a failed fetch skips
  the tick; a version that differs from the last observed one is stored and handed to the
  callback; an equal one does nothing. The callback is modelled by the list of the
  arguments it was invoked with, oldest first. The loop never ends by itself, so it is
  run for a given number of ticks.
\<close>

record watch =
  last_observed :: string
  callback_args :: "string list"

definition OnChange_tick ::
  "stdlib \<Rightarrow> 'st client \<Rightarrow> watch \<Rightarrow> 'st \<Rightarrow> watch outcome \<times> 'st"
where
  \<comment> \<open>Modelled from the spec: one tick of the loop, whose body is not in metadata.go\<close>
  "OnChange_tick L m w s =
     (case GetVersion L m s of
        (Panic, s') \<Rightarrow> (Panic, s')
      | (Return (newVersion, Some err), s') \<Rightarrow> (Return w, s')
      | (Return (newVersion, None), s') \<Rightarrow>
          if newVersion \<noteq> last_observed w
          then (Return \<lparr>last_observed = newVersion,
                        callback_args = callback_args w @ [newVersion]\<rparr>, s')
          else (Return w, s'))"

fun OnChange_ticks ::
  "stdlib \<Rightarrow> 'st client \<Rightarrow> nat \<Rightarrow> watch \<Rightarrow> 'st \<Rightarrow> watch outcome \<times> 'st"
where
  \<comment> \<open>Modelled from the spec: the ticks follow one another, each on the state the last left\<close>
  "OnChange_ticks L m 0 w s = (Return w, s)"
| "OnChange_ticks L m (Suc n) w s =
     (case OnChange_tick L m w s of
        (Panic, s') \<Rightarrow> (Panic, s')
      | (Return w', s') \<Rightarrow> OnChange_ticks L m n w' s')"

definition OnChange :: "stdlib \<Rightarrow> 'st client \<Rightarrow> nat \<Rightarrow> 'st \<Rightarrow> watch outcome \<times> 'st" where
  \<comment> \<open>Modelled from the spec: the last observed version is initialized empty\<close>
  "OnChange L m ticks s = OnChange_ticks L m ticks \<lparr>last_observed = '''', callback_args = []\<rparr> s"

section \<open>A scripted metadata service\<close>

text \<open>
  The concrete inputs of the development: a transport that answers the requests it gets
  with the entries of a script, in order, and refuses the connection once the script is
  used up; a \<open>http.NewRequest\<close> that rejects a URL holding the control character DEL, as
  net/url does; and decoders that know a handful of bodies. On the body \<open>[1]\<close> the
  container decoder does what encoding/json does on a value of the wrong type: it
  reports the type error and completes the decoding as best it can, which leaves a slice
  of one zero-value element.
\<close>

type_synonym script = "(response option \<times> error option) list"

definition scripted :: "script http_Client" where
  "scripted =
     \<lparr>Do = (\<lambda>req s. case s of
                [] \<Rightarrow> ((None, Some (LibraryError ''dial tcp: connection refused'')), [])
              | a # rest \<Rightarrow> (a, rest))\<rparr>"

definition answer :: "int \<Rightarrow> string \<Rightarrow> response option \<times> error option" where
  "answer code body = (Some \<lparr>StatusCode = code, Body = (body, None)\<rparr>, None)"

definition test_client :: "script client" where
  "test_client = \<lparr>url = ''http://rancher-metadata/latest'', ip = '''', client = scripted\<rparr>"

definition syntax_error :: error where
  "syntax_error = LibraryError ''unexpected end of JSON input''"

definition type_error :: error where
  "type_error = LibraryError ''json: cannot unmarshal number into Go value of type metadata.Container''"

definition web :: Service where
  "web = \<lparr>Service.Name = ''web'', Service.StackName = ''front''\<rparr>"

definition db :: Service where
  "db = \<lparr>Service.Name = ''db'', Service.StackName = ''back''\<rparr>"

definition environments_listing :: "Environment list" where
  "environments_listing =
     [\<lparr>Environment.Name = ''prod'', RegionName = ''eu'', Services = Some [db]\<rparr>,
      \<lparr>Environment.Name = ''test'', RegionName = ''eu'', Services = Some [web]\<rparr>,
      \<lparr>Environment.Name = ''prod'', RegionName = ''eu'', Services = Some [web, db]\<rparr>]"

definition environments_json :: string where
  \<open>environments_json =
     ''[{"name":"prod","region_name":"eu","services":[{"name":"db","stack_name":"back"}]},'' @
     ''{"name":"test","region_name":"eu","services":[{"name":"web","stack_name":"front"}]},'' @
     ''{"name":"prod","region_name":"eu","services":[{"name":"web","stack_name":"front"},'' @
     ''{"name":"db","stack_name":"back"}]}]''\<close>

definition hosts_listing :: "Host list" where
  "hosts_listing =
     [\<lparr>Host.UUID = ''h-1'', Host.Name = ''alpha''\<rparr>, \<lparr>Host.UUID = ''h-2'', Host.Name = ''beta''\<rparr>]"

definition hosts_json :: string where
  \<open>hosts_json = ''[{"uuid":"h-1","name":"alpha"},{"uuid":"h-2","name":"beta"}]''\<close>

definition containers_listing :: "Container list" where
  "containers_listing =
     [\<lparr>Container.Name = ''web-1'', Container.ServiceName = ''web'', Container.StackName = ''front''\<rparr>,
      \<lparr>Container.Name = ''db-1'', Container.ServiceName = ''db'', Container.StackName = ''back''\<rparr>,
      \<lparr>Container.Name = ''web-2'', Container.ServiceName = ''web'', Container.StackName = ''front''\<rparr>]"

definition containers_json :: string where
  \<open>containers_json =
     ''[{"name":"web-1","service_name":"web","stack_name":"front"},'' @
     ''{"name":"db-1","service_name":"db","stack_name":"back"},'' @
     ''{"name":"web-2","service_name":"web","stack_name":"front"}]''\<close>

definition test_lib :: stdlib where
  "test_lib =
     \<lparr>http_NewRequest = (\<lambda>method u.
        if CHR 0x7F \<in> set u
        then (None, Some (LibraryError ''net/url: invalid control character in URL''))
        else (Some \<lparr>Method = method, URL = u, Header = []\<rparr>, None)),
      json_Unmarshal_Environments = (\<lambda>data v.
        if data = environments_json then (Some environments_listing, None)
        else (v, Some syntax_error)),
      json_Unmarshal_Services = (\<lambda>data v.
        if data = ''[]'' then (Some [], None) else (v, Some syntax_error)),
      json_Unmarshal_Stacks = (\<lambda>data v.
        if data = ''[]'' then (Some [], None) else (v, Some syntax_error)),
      json_Unmarshal_Containers = (\<lambda>data v.
        if data = containers_json then (Some containers_listing, None)
        else if data = ''[1]'' then (Some [zero_Container], Some type_error)
        else (v, Some syntax_error)),
      json_Unmarshal_Hosts = (\<lambda>data v.
        if data = hosts_json then (Some hosts_listing, None)
        else (v, Some syntax_error)),
      json_Unmarshal_Networks = (\<lambda>data v.
        if data = ''[]'' then (Some [], None) else (v, Some syntax_error))\<rparr>"

definition versions_script :: script where
  \<comment> \<open>the version responses \<open>v1, v1, v2, v2, v3\<close>, one per request\<close>
  "versions_script = map (answer 200) [''v1'', ''v1'', ''v2'', ''v2'', ''v3'']"

section \<open>Basic facts\<close>

lemma elems_None [simp]: "elems None = []"
  by (simp add: elems_def)

lemma elems_Some [simp]: "elems (Some xs) = xs"
  by (simp add: elems_def)

lemma elems_append_slice: "elems (append_slice s xs) = elems s @ xs"
  by (simp add: elems_def append_slice_def split: option.splits)

lemma find_app:
  "find P (xs @ ys) = (case find P xs of Some x \<Rightarrow> Some x | None \<Rightarrow> find P ys)"
  by (induction xs) auto

lemma unquote_quoted: "unquote (quote @ r @ quote) = r"
  by (simp add: unquote_def strings_TrimSuffix_def strings_TrimPrefix_def
      strings_HasSuffix_def strings_HasPrefix_def quote_def)

lemmas world_defs = SendRequest_def SendRequest_req_def Header_Add_def ioutil_ReadAll_def
  test_lib_def test_client_def scripted_def answer_def

lemma test_SendRequest_ok:
  "CHR 0x7F \<notin> set path \<Longrightarrow>
   SendRequest test_lib test_client path (answer 200 body # rest) = (Return (Some body, None), rest)"
  by (simp add: world_defs)

lemma test_SendRequest_refused:
  "CHR 0x7F \<notin> set path \<Longrightarrow>
   SendRequest test_lib test_client path [] =
     (Return (None, Some (LibraryError ''dial tcp: connection refused'')), [])"
  by (simp add: world_defs)

section \<open>The loops as searches\<close>

lemma scan_services_find:
  "scan_services stackName svcName svcs =
     find (\<lambda>svc. stackName = Service.StackName svc \<and> svcName = Service.Name svc) svcs"
  by (induction svcs) auto

lemma scan_environments_find:
  "scan_environments regionName envName stackName svcName envs =
     find (\<lambda>svc. stackName = Service.StackName svc \<and> svcName = Service.Name svc)
       (concat (map (\<lambda>env. elems (Environment.Services env))
          (filter (\<lambda>env. regionName = Environment.RegionName env \<and> envName = Environment.Name env) envs)))"
  by (induction envs) (auto simp: find_app scan_services_find split: option.splits)

lemma collect_services_elems:
  "elems (collect_services regionName envName services envs) =
     elems services @
       concat (map (\<lambda>env. elems (Environment.Services env))
          (filter (\<lambda>env. regionName = Environment.RegionName env \<and> envName = Environment.Name env) envs))"
  by (induction envs arbitrary: services) (auto simp: elems_append_slice)

lemma filter_containers_acc:
  "filter_containers serviceName stackName (Some acc) containers =
     Some (acc @ filter (\<lambda>c. Container.StackName c = stackName \<and> Container.ServiceName c = serviceName) containers)"
  by (induction containers arbitrary: acc) (auto simp: append_slice_def)

lemma scan_hosts_find: "scan_hosts uuid hosts = find (\<lambda>h. Host.UUID h = uuid) hosts"
  by (induction hosts) auto

section \<open>The resolution cascade\<close>

text \<open>
  C1. When the environments listing is fetched and decoded, \<open>GetServiceByRegionEnvironment\<close>
  returns, with a nil error, the first Service whose stack and name match among the
  services of the Environments whose region and name match, taken in the order of the
  listing (every matching Environment is scanned, in turn, until a Service matches).
  When no Environment matches, or no Service matches within the matching Environments,
  it returns the zero-value Service, again with a nil error.
\<close>

theorem GetServiceByRegionEnvironment_first_match:
  assumes "SendRequest L m ''/environments'' s = (Return (resp, None), s')"
      and "json_Unmarshal_Environments L (elems resp) None = (environments, None)"
  shows "GetServiceByRegionEnvironment L m regionName envName stackName svcName s =
           (Return
              (case find (\<lambda>svc. stackName = Service.StackName svc \<and> svcName = Service.Name svc)
                      (concat (map (\<lambda>env. elems (Environment.Services env))
                         (filter (\<lambda>env. regionName = Environment.RegionName env \<and>
                                         envName = Environment.Name env) (elems environments)))) of
                 Some svc \<Rightarrow> svc
               | None \<Rightarrow> zero_Service,
               None), s')
       \<and> ((\<forall>env \<in> set (elems environments).
              regionName = Environment.RegionName env \<and> envName = Environment.Name env \<longrightarrow>
              (\<forall>svc \<in> set (elems (Environment.Services env)).
                 \<not> (stackName = Service.StackName svc \<and> svcName = Service.Name svc))) \<longrightarrow>
           GetServiceByRegionEnvironment L m regionName envName stackName svcName s =
             (Return (zero_Service, None), s'))"
proof -
  let ?P = "\<lambda>svc. stackName = Service.StackName svc \<and> svcName = Service.Name svc"
  let ?xs = "concat (map (\<lambda>env. elems (Environment.Services env))
                (filter (\<lambda>env. regionName = Environment.RegionName env \<and>
                                envName = Environment.Name env) (elems environments)))"
  have eq: "GetServiceByRegionEnvironment L m regionName envName stackName svcName s =
      (Return (case find ?P ?xs of Some svc \<Rightarrow> svc | None \<Rightarrow> zero_Service, None), s')"
    using assms
    by (simp add: GetServiceByRegionEnvironment_def scan_environments_find split: option.splits)
  have none: "find ?P ?xs = None"
    if "\<forall>env \<in> set (elems environments).
          regionName = Environment.RegionName env \<and> envName = Environment.Name env \<longrightarrow>
          (\<forall>svc \<in> set (elems (Environment.Services env)). \<not> ?P svc)"
    using that by (auto simp: find_None_iff)
  show ?thesis using eq none by simp
qed

theorem GetServiceByRegionEnvironment_first_match_witness:
  "GetServiceByRegionEnvironment test_lib test_client ''eu'' ''prod'' ''front'' ''web''
     [answer 200 environments_json] = (Return (web, None), [])
 \<and> GetServiceByRegionEnvironment test_lib test_client ''eu'' ''prod'' ''front'' ''cache''
     [answer 200 environments_json] = (Return (zero_Service, None), [])"
proof -
  have h1: "SendRequest test_lib test_client ''/environments'' [answer 200 environments_json] =
        (Return (Some environments_json, None), [])"
    by (simp add: test_SendRequest_ok)
  have h2: "json_Unmarshal_Environments test_lib (elems (Some environments_json)) None =
        (Some environments_listing, None)"
    by (simp add: test_lib_def)
  show ?thesis
    using GetServiceByRegionEnvironment_first_match [OF h1 h2, of "''eu''" "''prod''" "''front''" "''web''"]
          GetServiceByRegionEnvironment_first_match [OF h1 h2, of "''eu''" "''prod''" "''front''" "''cache''"]
    by (simp add: environments_listing_def web_def db_def)
qed

text \<open>
  C2. When the hosts listing is fetched and decoded, \<open>GetHost\<close> returns the first Host of
  the listing whose UUID is the queried one, with a nil error, if there is such a Host;
  otherwise it returns the zero-value Host with the error
  \<open>could not find host by UUID <uuid>\<close>, and so never a Host with a nil error.
\<close>

theorem GetHost_found_or_error:
  assumes "GetHosts L m s = (Return (hosts, None), s')"
  shows "(if \<exists>h \<in> set (elems hosts). Host.UUID h = uuid
          then \<exists>host. GetHost L m uuid s = (Return (host, None), s') \<and>
                 Host.UUID host = uuid \<and> find (\<lambda>h. Host.UUID h = uuid) (elems hosts) = Some host
          else GetHost L m uuid s =
                 (Return (zero_Host, Some (Errorf (''could not find host by UUID '' @ uuid))), s'))"
proof (cases "find (\<lambda>h. Host.UUID h = uuid) (elems hosts)")
  case None
  then have "\<not> (\<exists>h \<in> set (elems hosts). Host.UUID h = uuid)"
    by (auto simp: find_None_iff)
  then show ?thesis using assms None
    by (simp add: GetHost_def scan_hosts_find host_not_found_def)
next
  case (Some host)
  then have "Host.UUID host = uuid" "host \<in> set (elems hosts)"
    by (auto simp: find_Some_iff)
  then show ?thesis using assms Some
    by (auto simp: GetHost_def scan_hosts_find)
qed

theorem GetHost_found_or_error_witness:
  "GetHost test_lib test_client ''h-2'' [answer 200 hosts_json] =
     (Return (\<lparr>Host.UUID = ''h-2'', Host.Name = ''beta''\<rparr>, None), [])
 \<and> GetHost test_lib test_client ''h-9'' [answer 200 hosts_json] =
     (Return (zero_Host, Some (Errorf ''could not find host by UUID h-9'')), [])"
proof -
  have h: "GetHosts test_lib test_client [answer 200 hosts_json] = (Return (Some hosts_listing, None), [])"
    by (simp add: GetHosts_def test_SendRequest_ok) (simp add: test_lib_def)
  show ?thesis
    using GetHost_found_or_error [OF h, of "''h-2''"] GetHost_found_or_error [OF h, of "''h-9''"]
    by (simp add: hosts_listing_def)
qed

text \<open>
  C3. Whenever \<open>GetRegionName\<close> succeeds and returns the region \<open>r\<close>,
  \<open>GetServiceByEnvironment\<close> returns exactly what \<open>GetServiceByRegionEnvironment\<close> returns
  for \<open>r\<close> and the same environment, stack and service names, run on the state of the
  metadata service that the region query left (the same environments listing).
\<close>

theorem GetServiceByEnvironment_delegates:
  assumes "GetRegionName L m s = (Return (r, None), s')"
  shows "GetServiceByEnvironment L m envName stackName svcName s =
           GetServiceByRegionEnvironment L m r envName stackName svcName s'"
  using assms by (simp add: GetServiceByEnvironment_def)

theorem GetServiceByEnvironment_delegates_witness:
  "GetServiceByEnvironment test_lib test_client ''prod'' ''front'' ''web''
     [answer 200 (quote @ ''eu'' @ quote), answer 200 environments_json] =
   GetServiceByRegionEnvironment test_lib test_client ''eu'' ''prod'' ''front'' ''web''
     [answer 200 environments_json]"
proof -
  have h: "GetRegionName test_lib test_client
             [answer 200 (quote @ ''eu'' @ quote), answer 200 environments_json] =
           (Return (''eu'', None), [answer 200 environments_json])"
    using unquote_quoted [of "''eu''"]
    by (simp add: GetRegionName_def test_SendRequest_ok)
  show ?thesis by (rule GetServiceByEnvironment_delegates [OF h])
qed

text \<open>
  C5. When the environments listing is fetched and decoded, \<open>GetServicesByRegionEnvironment\<close>
  returns, with a nil error, the concatenation in listing order of the service lists of
  every Environment whose region and name both match, however many of them match.
\<close>

theorem GetServicesByRegionEnvironment_concat:
  assumes "SendRequest L m ''/environments'' s = (Return (resp, None), s')"
      and "json_Unmarshal_Environments L (elems resp) None = (environments, None)"
  shows "\<exists>services. GetServicesByRegionEnvironment L m regionName envName s = (Return (services, None), s') \<and>
           elems services =
             concat (map (\<lambda>env. elems (Environment.Services env))
               (filter (\<lambda>env. regionName = Environment.RegionName env \<and>
                               envName = Environment.Name env) (elems environments)))"
  using assms
  by (simp add: GetServicesByRegionEnvironment_def collect_services_elems)

theorem GetServicesByRegionEnvironment_concat_witness:
  "\<exists>services. GetServicesByRegionEnvironment test_lib test_client ''eu'' ''prod''
       [answer 200 environments_json] = (Return (services, None), [])
     \<and> elems services = [db, web, db]"
proof -
  have h1: "SendRequest test_lib test_client ''/environments'' [answer 200 environments_json] =
        (Return (Some environments_json, None), [])"
    by (simp add: test_SendRequest_ok)
  have h2: "json_Unmarshal_Environments test_lib (elems (Some environments_json)) None =
        (Some environments_listing, None)"
    by (simp add: test_lib_def)
  show ?thesis
    using GetServicesByRegionEnvironment_concat [OF h1 h2, of "''eu''" "''prod''"]
    by (simp add: environments_listing_def)
qed

text \<open>
  C6. When the containers listing is fetched and decoded, \<open>GetServiceContainers\<close> returns,
  with a nil error, exactly the containers whose stack name and service name are the
  queried ones, in the order of the listing; when none matches, the result is the empty
  (non-nil) sequence, still with a nil error.
\<close>

theorem GetServiceContainers_filter:
  assumes "GetContainers L m s = (Return (containers, None), s')"
  shows "GetServiceContainers L m serviceName stackName s =
           (Return (Some (filter (\<lambda>c. Container.StackName c = stackName \<and>
                                       Container.ServiceName c = serviceName) (elems containers)),
                    None), s')
       \<and> ((\<forall>c \<in> set (elems containers).
              \<not> (Container.StackName c = stackName \<and> Container.ServiceName c = serviceName)) \<longrightarrow>
           GetServiceContainers L m serviceName stackName s = (Return (Some [], None), s'))"
proof -
  have eq: "GetServiceContainers L m serviceName stackName s =
           (Return (Some (filter (\<lambda>c. Container.StackName c = stackName \<and>
                                       Container.ServiceName c = serviceName) (elems containers)),
                    None), s')"
    using assms by (simp add: GetServiceContainers_def filter_containers_acc)
  show ?thesis unfolding eq by (auto simp: filter_empty_conv)
qed

theorem GetServiceContainers_filter_witness:
  "GetServiceContainers test_lib test_client ''web'' ''front'' [answer 200 containers_json] =
     (Return (Some [\<lparr>Container.Name = ''web-1'', Container.ServiceName = ''web'', Container.StackName = ''front''\<rparr>,
                    \<lparr>Container.Name = ''web-2'', Container.ServiceName = ''web'', Container.StackName = ''front''\<rparr>],
              None), [])
 \<and> GetServiceContainers test_lib test_client ''web'' ''back'' [answer 200 containers_json] =
     (Return (Some [], None), [])"
proof -
  have h: "GetContainers test_lib test_client [answer 200 containers_json] =
             (Return (Some containers_listing, None), [])"
    by (simp add: GetContainers_def test_SendRequest_ok) (simp add: test_lib_def)
  show ?thesis
    using GetServiceContainers_filter [OF h, where serviceName = "''web''" and stackName = "''front''"]
          GetServiceContainers_filter [OF h, where serviceName = "''web''" and stackName = "''back''"]
    by (simp add: containers_listing_def)
qed

section \<open>The transport\<close>

text \<open>
  C8. For a request that was built and a response that came back: when the status code is
  not 200, \<open>SendRequest\<close> returns a nil body and the error
  \<open>Error <status> accessing <path> path\<close>; and whenever it returns a body with a nil
  error, the status code is 200 and the body is the one read from the response.
\<close>

theorem SendRequest_status:
  assumes "http_NewRequest L ''GET'' (url m @ path) = (Some req, e0)"
      and "Do (client m) (SendRequest_req m req) s = ((Some resp, None), s')"
  shows "(StatusCode resp \<noteq> 200 \<longrightarrow>
            SendRequest L m path s =
              (Return (None, Some (Errorf (''Error '' @ show_int (StatusCode resp) @
                                           '' accessing '' @ path @ '' path''))), s'))
       \<and> (\<forall>body. fst (SendRequest L m path s) = Return (body, None) \<longrightarrow>
            StatusCode resp = 200 \<and> body = Some (fst (Body resp)) \<and> snd (Body resp) = None)"
  using assms
  by (auto simp: SendRequest_def status_error_def ioutil_ReadAll_def
      split: prod.splits option.splits if_splits)

theorem SendRequest_status_witness:
  "SendRequest test_lib test_client ''/stacks/none'' [answer 404 ''not found''] =
     (Return (None, Some (Errorf ''Error 404 accessing /stacks/none path'')), [])"
proof -
  have h1: "http_NewRequest test_lib ''GET'' (url test_client @ ''/stacks/none'') =
              (Some \<lparr>Method = ''GET'', URL = ''http://rancher-metadata/latest/stacks/none'', Header = []\<rparr>, None)"
    by (simp add: test_lib_def test_client_def)
  have h2: "Do (client test_client)
              (SendRequest_req test_client
                 \<lparr>Method = ''GET'', URL = ''http://rancher-metadata/latest/stacks/none'', Header = []\<rparr>)
              [answer 404 ''not found''] =
            ((Some \<lparr>StatusCode = 404, Body = (''not found'', None)\<rparr>, None), [])"
    by (simp add: test_client_def scripted_def answer_def)
  have n: "show_int 404 = ''404''"
    by (simp add: show_int_def show_nat.simps)
  show ?thesis
    using SendRequest_status [OF h1 h2] by (simp add: n)
qed

text \<open>
  C9. The error of \<open>http.NewRequest\<close> is never returned by \<open>SendRequest\<close>. When the
  request could not be built (\<open>req\<close> is nil), the call panics at \<open>req.Header.Add\<close> and
  returns nothing; the result of \<open>SendRequest\<close> does not depend on the error component of
  \<open>http.NewRequest\<close> at all; and every error \<open>SendRequest\<close> returns comes with a nil body
  and is the error of \<open>Do\<close>, the status error of a response that is not 200, or the
  error of reading the body of a 200 response.
\<close>

theorem SendRequest_error_sources:
  "(\<forall>e. http_NewRequest L ''GET'' (url m @ path) = (None, e) \<longrightarrow> SendRequest L m path s = (Panic, s))
 \<and> SendRequest (L\<lparr>http_NewRequest := \<lambda>method u. (fst (http_NewRequest L method u), f method u)\<rparr>) m path s
      = SendRequest L m path s
 \<and> (\<forall>body err s'. SendRequest L m path s = (Return (body, Some err), s') \<longrightarrow>
      body = None \<and>
      (\<exists>req e0. http_NewRequest L ''GET'' (url m @ path) = (Some req, e0) \<and>
         ((\<exists>resp. Do (client m) (SendRequest_req m req) s = ((resp, Some err), s'))
        \<or> (\<exists>resp. Do (client m) (SendRequest_req m req) s = ((Some resp, None), s') \<and>
              StatusCode resp \<noteq> 200 \<and> err = status_error (StatusCode resp) path)
        \<or> (\<exists>resp. Do (client m) (SendRequest_req m req) s = ((Some resp, None), s') \<and>
              StatusCode resp = 200 \<and> snd (ioutil_ReadAll (Body resp)) = Some err))))"
  apply (intro conjI)
    apply (simp add: SendRequest_def)
   apply (simp add: SendRequest_def split: prod.splits option.splits)
  apply (auto simp: SendRequest_def split: prod.splits option.splits if_splits)
  done

theorem SendRequest_error_sources_witness:
  "SendRequest test_lib (test_client\<lparr>url := ''http://rancher'' @ [CHR 0x7F]\<rparr>) ''/version''
     [answer 200 ''v1''] = (Panic, [answer 200 ''v1''])
 \<and> http_NewRequest test_lib ''GET'' (''http://rancher'' @ [CHR 0x7F] @ ''/version'') =
     (None, Some (LibraryError ''net/url: invalid control character in URL''))"
proof -
  have h: "http_NewRequest test_lib ''GET''
             (url (test_client\<lparr>url := ''http://rancher'' @ [CHR 0x7F]\<rparr>) @ ''/version'') =
           (None, Some (LibraryError ''net/url: invalid control character in URL''))"
    by (simp add: test_lib_def)
  have "SendRequest test_lib (test_client\<lparr>url := ''http://rancher'' @ [CHR 0x7F]\<rparr>) ''/version''
          [answer 200 ''v1''] = (Panic, [answer 200 ''v1''])"
    using SendRequest_error_sources
      [of test_lib "test_client\<lparr>url := ''http://rancher'' @ [CHR 0x7F]\<rparr>" "''/version''"
          "[answer 200 ''v1'']"] h
    by blast
  moreover have "http_NewRequest test_lib ''GET'' (''http://rancher'' @ [CHR 0x7F] @ ''/version'') =
     (None, Some (LibraryError ''net/url: invalid control character in URL''))"
    by (simp add: test_lib_def)
  ultimately show ?thesis by simp
qed

section \<open>Unquoting the region name\<close>

lemma HasSuffix_quote: "strings_HasSuffix s quote \<longleftrightarrow> s \<noteq> [] \<and> last s = CHR 0x22"
  by (cases s rule: rev_cases) (auto simp: strings_HasSuffix_def quote_def)

lemma HasPrefix_quote: "strings_HasPrefix s quote \<longleftrightarrow> s \<noteq> [] \<and> hd s = CHR 0x22"
  by (cases s) (auto simp: strings_HasPrefix_def quote_def)

lemma TrimSuffix_quote:
  "strings_TrimSuffix s quote = (if strings_HasSuffix s quote then butlast s else s)"
  by (simp add: strings_TrimSuffix_def quote_def butlast_conv_take)

lemma TrimPrefix_quote:
  "strings_TrimPrefix s quote = (if strings_HasPrefix s quote then tl s else s)"
  by (simp add: strings_TrimPrefix_def quote_def drop_Suc)

lemma unquote_steps:
  "unquote s =
     (let t = (if strings_HasSuffix s quote then butlast s else s)
      in if strings_HasPrefix t quote then tl t else t)"
  by (simp add: unquote_def TrimSuffix_quote TrimPrefix_quote Let_def)

lemma unquote_length:
  "length (unquote s) =
     length s - (if strings_HasSuffix s quote then 1 else 0)
              - (if strings_HasPrefix (strings_TrimSuffix s quote) quote then 1 else 0)"
  by (simp add: unquote_def TrimSuffix_quote TrimPrefix_quote)

lemma unquote_fixed_iff:
  "unquote s = s \<longleftrightarrow> \<not> strings_HasPrefix s quote \<and> \<not> strings_HasSuffix s quote"
proof
  assume fixed: "unquote s = s"
  show "\<not> strings_HasPrefix s quote \<and> \<not> strings_HasSuffix s quote"
  proof (rule ccontr)
    assume "\<not> (\<not> strings_HasPrefix s quote \<and> \<not> strings_HasSuffix s quote)"
    then have "s \<noteq> []" and "strings_HasPrefix s quote \<or> strings_HasSuffix s quote"
      by (auto simp: HasPrefix_quote HasSuffix_quote)
    then have "length (unquote s) < length s"
      by (auto simp: unquote_length TrimSuffix_quote)
    with fixed show False by simp
  qed
next
  assume "\<not> strings_HasPrefix s quote \<and> \<not> strings_HasSuffix s quote"
  then show "unquote s = s"
    by (simp add: unquote_def TrimSuffix_quote TrimPrefix_quote)
qed

text \<open>
  C7, as stated, fails: unquoting is not idempotent on every string. A region name sent
  with two quote characters at an end loses one of them at each application.
\<close>

theorem unquote_not_idempotent: "\<not> (\<forall>s. unquote (unquote s) = unquote s)"
proof
  assume "\<forall>s. unquote (unquote s) = unquote s"
  then have "unquote (unquote (quote @ quote @ ''eu'' @ quote @ quote)) =
             unquote (quote @ quote @ ''eu'' @ quote @ quote)"
    by blast
  then show False
    by (simp add: unquote_def strings_TrimSuffix_def strings_TrimPrefix_def
        strings_HasSuffix_def strings_HasPrefix_def quote_def)
qed

text \<open>
  C7, amended. The unquoting of \<open>GetRegionName\<close> removes one trailing quote character if
  there is one and then one leading quote character if there is one; it turns
  \<open>"r"\<close> into \<open>r\<close>; it is the identity on a string that neither begins nor ends with a
  quote character; and applying it twice equals applying it once exactly when the string
  unquoted once neither begins nor ends with a quote character.
\<close>

theorem unquote_strips_one_each_end:
  "unquote s =
     (let t = (if strings_HasSuffix s quote then butlast s else s)
      in if strings_HasPrefix t quote then tl t else t)
 \<and> unquote (quote @ r @ quote) = r
 \<and> (\<not> strings_HasPrefix s quote \<and> \<not> strings_HasSuffix s quote \<longrightarrow> unquote s = s)
 \<and> (unquote (unquote s) = unquote s \<longleftrightarrow>
      \<not> strings_HasPrefix (unquote s) quote \<and> \<not> strings_HasSuffix (unquote s) quote)"
  using unquote_steps [of s] unquote_quoted [of r] unquote_fixed_iff [of s]
    unquote_fixed_iff [of "unquote s"]
  by simp

theorem unquote_strips_one_each_end_witness:
  "unquote (quote @ ''eu'' @ quote) = ''eu''
 \<and> unquote (unquote (quote @ ''eu'' @ quote)) = unquote (quote @ ''eu'' @ quote)"
proof -
  let ?X = "quote @ ''eu'' @ quote"
  have a: "\<not> strings_HasPrefix ''eu'' quote \<and> \<not> strings_HasSuffix ''eu'' quote"
    by (simp add: strings_HasPrefix_def strings_HasSuffix_def quote_def)
  note t = unquote_strips_one_each_end [of ?X "''eu''"]
  from t have b: "unquote ?X = ''eu''" by blast
  from t have "(unquote (unquote ?X) = unquote ?X) =
      (\<not> strings_HasPrefix (unquote ?X) quote \<and> \<not> strings_HasSuffix (unquote ?X) quote)"
    by blast
  with a have c: "unquote (unquote ?X) = unquote ?X"
    unfolding b by blast
  from b c show ?thesis by blast
qed

section \<open>The change-notification loop on the five version responses\<close>

lemma test_GetVersion_ok:
  "GetVersion test_lib test_client (answer 200 v # rest) = (Return (v, None), rest)"
  by (simp add: GetVersion_def test_SendRequest_ok)

lemma test_GetVersion_refused:
  "GetVersion test_lib test_client [] =
     (Return ('''', Some (LibraryError ''dial tcp: connection refused'')), [])"
  by (simp add: GetVersion_def test_SendRequest_refused)

lemma test_tick_ok:
  "OnChange_tick test_lib test_client w (answer 200 v # rest) =
     (if v \<noteq> last_observed w
      then (Return \<lparr>last_observed = v, callback_args = callback_args w @ [v]\<rparr>, rest)
      else (Return w, rest))"
  by (simp add: OnChange_tick_def test_GetVersion_ok)

lemma test_ticks_refused: "OnChange_ticks test_lib test_client n w [] = (Return w, [])"
  by (induction n) (simp_all add: OnChange_tick_def test_GetVersion_refused)

lemma test_ticks_five:
  "OnChange_ticks test_lib test_client (Suc (Suc (Suc (Suc (Suc k)))))
     \<lparr>last_observed = '''', callback_args = []\<rparr> versions_script =
   (Return \<lparr>last_observed = ''v3'', callback_args = [''v1'', ''v2'', ''v3'']\<rparr>, [])"
  by (simp add: versions_script_def test_tick_ok test_ticks_refused)

text \<open>
  C4, as stated, fails on the loop of the spec: with the last observed version initialized
  empty, the first response \<open>v1\<close> already differs from it, so the callback does not fire
  with exactly \<open>v2\<close> and \<open>v3\<close>.
\<close>

theorem OnChange_fires_twice_refuted:
  "\<not> (\<exists>w s'. OnChange test_lib test_client 5 versions_script = (Return w, s') \<and>
              callback_args w = [''v2'', ''v3''])"
proof -
  have "OnChange test_lib test_client 5 versions_script =
     (Return \<lparr>last_observed = ''v3'', callback_args = [''v1'', ''v2'', ''v3'']\<rparr>, [])"
    using test_ticks_five [of 0] by (simp add: OnChange_def eval_nat_numeral)
  then show ?thesis by simp
qed

text \<open>
  C4, amended. Given the version responses \<open>v1, v1, v2, v2, v3\<close>, one per tick, to a loop
  whose last observed version is initialized empty, the callback fires exactly three
  times, with \<open>v1\<close>, \<open>v2\<close> and \<open>v3\<close> in that order: after the five ticks, and after any
  number of further ticks, on which the fetch fails and is skipped.
\<close>

theorem OnChange_fires_on_each_new_version:
  assumes "5 \<le> n"
  shows "OnChange test_lib test_client n versions_script =
           (Return \<lparr>last_observed = ''v3'', callback_args = [''v1'', ''v2'', ''v3'']\<rparr>, [])"
proof -
  define k where "k = n - 5"
  with assms have "n = Suc (Suc (Suc (Suc (Suc k))))"
    by simp
  then show ?thesis by (simp only: OnChange_def test_ticks_five)
qed

theorem OnChange_fires_on_each_new_version_witness:
  "(5::nat) \<le> 7 \<and> OnChange test_lib test_client 7 versions_script =
           (Return \<lparr>last_observed = ''v3'', callback_args = [''v1'', ''v2'', ''v3'']\<rparr>, [])"
proof -
  have h: "(5::nat) \<le> 7" by simp
  show ?thesis using h OnChange_fires_on_each_new_version [OF h] by simp
qed

section \<open>Slices returned alongside errors\<close>

lemma GetServiceContainers_non_nil:
  "GetServiceContainers L m serviceName stackName s = (Return (containers, err), s') \<Longrightarrow>
   containers \<noteq> None"
  by (auto simp: GetServiceContainers_def filter_containers_acc
      split: prod.splits outcome.splits option.splits)

lemma GetServiceContainers_on_error:
  "GetContainers L m s = (Return (containers, Some err), s') \<Longrightarrow>
   GetServiceContainers L m serviceName stackName s = (Return (Some [], Some err), s')"
  by (simp add: GetServiceContainers_def)

lemma GetServiceContainers_panics:
  "fst (GetServiceContainers L m serviceName stackName s) = Panic \<longleftrightarrow>
   fst (SendRequest L m ''/containers'' s) = Panic"
  by (auto simp: GetServiceContainers_def GetContainers_def
      split: prod.splits outcome.splits option.splits)

lemma bulk_transport_error:
  "\<forall>resp err s'.
      (SendRequest L m ''/containers'' s = (Return (resp, Some err), s') \<longrightarrow>
         GetContainers L m s = (Return (None, Some err), s'))
    \<and> (SendRequest L m ''/hosts'' s = (Return (resp, Some err), s') \<longrightarrow>
         GetHosts L m s = (Return (None, Some err), s'))
    \<and> (SendRequest L m ''/services'' s = (Return (resp, Some err), s') \<longrightarrow>
         GetServices L m s = (Return (None, Some err), s'))
    \<and> (SendRequest L m ''/stacks'' s = (Return (resp, Some err), s') \<longrightarrow>
         GetStacks L m s = (Return (None, Some err), s'))
    \<and> (SendRequest L m ''/networks'' s = (Return (resp, Some err), s') \<longrightarrow>
         GetNetworks L m s = (Return (None, Some err), s'))"
  by (simp add: GetContainers_def GetHosts_def GetServices_def GetStacks_def GetNetworks_def)

lemma bulk_decode_error:
  "\<forall>resp err s'.
      (\<forall>v. SendRequest L m ''/containers'' s = (Return (resp, None), s') \<and>
           json_Unmarshal_Containers L (elems resp) None = (v, Some err) \<longrightarrow>
           GetContainers L m s = (Return (v, Some err), s'))
    \<and> (\<forall>v. SendRequest L m ''/hosts'' s = (Return (resp, None), s') \<and>
           json_Unmarshal_Hosts L (elems resp) None = (v, Some err) \<longrightarrow>
           GetHosts L m s = (Return (v, Some err), s'))
    \<and> (\<forall>v. SendRequest L m ''/services'' s = (Return (resp, None), s') \<and>
           json_Unmarshal_Services L (elems resp) None = (v, Some err) \<longrightarrow>
           GetServices L m s = (Return (v, Some err), s'))
    \<and> (\<forall>v. SendRequest L m ''/stacks'' s = (Return (resp, None), s') \<and>
           json_Unmarshal_Stacks L (elems resp) None = (v, Some err) \<longrightarrow>
           GetStacks L m s = (Return (v, Some err), s'))
    \<and> (\<forall>v. SendRequest L m ''/networks'' s = (Return (resp, None), s') \<and>
           json_Unmarshal_Networks L (elems resp) None = (v, Some err) \<longrightarrow>
           GetNetworks L m s = (Return (v, Some err), s'))"
  by (simp add: GetContainers_def GetHosts_def GetServices_def GetStacks_def GetNetworks_def)

lemma test_GetContainers_type_error:
  "GetContainers test_lib test_client [answer 200 ''[1]''] =
     (Return (Some [zero_Container], Some type_error), [])"
  by (simp add: GetContainers_def test_SendRequest_ok) (simp add: test_lib_def containers_json_def)

text \<open>
  C10, as stated, fails: a bulk list accessor can return a non-nil slice alongside a decode
  error. On the body \<open>[1]\<close> the decoder reports a type error after it has put one
  zero-value element in the slice, and \<open>GetContainers\<close> returns that slice with the error.
\<close>

theorem bulk_accessor_nil_on_error_refuted:
  "\<not> (\<forall>L (m :: script client) s containers err s'.
        GetContainers L m s = (Return (containers, Some err), s') \<longrightarrow> containers = None)"
proof
  assume "\<forall>L (m :: script client) s containers err s'.
        GetContainers L m s = (Return (containers, Some err), s') \<longrightarrow> containers = None"
  with test_GetContainers_type_error have "Some [zero_Container] = None"
    by blast
  then show False by simp
qed

text \<open>
  C10, amended. \<open>GetServiceContainers\<close>, whenever it returns, returns a non-nil slice; it
  returns unless the request panics; and when the containers fetch fails it returns the
  empty non-nil slice with the error. \<open>GetContainers\<close>, \<open>GetHosts\<close>, \<open>GetServices\<close>,
  \<open>GetStacks\<close> and \<open>GetNetworks\<close> return a nil slice alongside a transport error, and
  alongside a decode error the slice as \<open>json.Unmarshal\<close> left it.
\<close>

theorem slices_returned_with_errors:
  "(\<forall>containers err s'.
      GetServiceContainers L m serviceName stackName s = (Return (containers, err), s') \<longrightarrow>
      containers \<noteq> None)
 \<and> (fst (GetServiceContainers L m serviceName stackName s) = Panic \<longleftrightarrow>
      fst (SendRequest L m ''/containers'' s) = Panic)
 \<and> (\<forall>containers err s'.
      GetContainers L m s = (Return (containers, Some err), s') \<longrightarrow>
      GetServiceContainers L m serviceName stackName s = (Return (Some [], Some err), s'))
 \<and> (\<forall>resp err s'.
      (SendRequest L m ''/containers'' s = (Return (resp, Some err), s') \<longrightarrow>
         GetContainers L m s = (Return (None, Some err), s'))
    \<and> (SendRequest L m ''/hosts'' s = (Return (resp, Some err), s') \<longrightarrow>
         GetHosts L m s = (Return (None, Some err), s'))
    \<and> (SendRequest L m ''/services'' s = (Return (resp, Some err), s') \<longrightarrow>
         GetServices L m s = (Return (None, Some err), s'))
    \<and> (SendRequest L m ''/stacks'' s = (Return (resp, Some err), s') \<longrightarrow>
         GetStacks L m s = (Return (None, Some err), s'))
    \<and> (SendRequest L m ''/networks'' s = (Return (resp, Some err), s') \<longrightarrow>
         GetNetworks L m s = (Return (None, Some err), s')))
 \<and> (\<forall>resp err s'.
      (\<forall>v. SendRequest L m ''/containers'' s = (Return (resp, None), s') \<and>
           json_Unmarshal_Containers L (elems resp) None = (v, Some err) \<longrightarrow>
           GetContainers L m s = (Return (v, Some err), s'))
    \<and> (\<forall>v. SendRequest L m ''/hosts'' s = (Return (resp, None), s') \<and>
           json_Unmarshal_Hosts L (elems resp) None = (v, Some err) \<longrightarrow>
           GetHosts L m s = (Return (v, Some err), s'))
    \<and> (\<forall>v. SendRequest L m ''/services'' s = (Return (resp, None), s') \<and>
           json_Unmarshal_Services L (elems resp) None = (v, Some err) \<longrightarrow>
           GetServices L m s = (Return (v, Some err), s'))
    \<and> (\<forall>v. SendRequest L m ''/stacks'' s = (Return (resp, None), s') \<and>
           json_Unmarshal_Stacks L (elems resp) None = (v, Some err) \<longrightarrow>
           GetStacks L m s = (Return (v, Some err), s'))
    \<and> (\<forall>v. SendRequest L m ''/networks'' s = (Return (resp, None), s') \<and>
           json_Unmarshal_Networks L (elems resp) None = (v, Some err) \<longrightarrow>
           GetNetworks L m s = (Return (v, Some err), s')))"
proof (intro conjI)
  show "\<forall>containers err s'.
      GetServiceContainers L m serviceName stackName s = (Return (containers, err), s') \<longrightarrow>
      containers \<noteq> None"
    by (intro allI impI) (erule GetServiceContainers_non_nil)
  show "fst (GetServiceContainers L m serviceName stackName s) = Panic \<longleftrightarrow>
      fst (SendRequest L m ''/containers'' s) = Panic"
    by (rule GetServiceContainers_panics)
  show "\<forall>containers err s'.
      GetContainers L m s = (Return (containers, Some err), s') \<longrightarrow>
      GetServiceContainers L m serviceName stackName s = (Return (Some [], Some err), s')"
    by (intro allI impI) (erule GetServiceContainers_on_error)
  show "\<forall>resp err s'.
      (SendRequest L m ''/containers'' s = (Return (resp, Some err), s') \<longrightarrow>
         GetContainers L m s = (Return (None, Some err), s'))
    \<and> (SendRequest L m ''/hosts'' s = (Return (resp, Some err), s') \<longrightarrow>
         GetHosts L m s = (Return (None, Some err), s'))
    \<and> (SendRequest L m ''/services'' s = (Return (resp, Some err), s') \<longrightarrow>
         GetServices L m s = (Return (None, Some err), s'))
    \<and> (SendRequest L m ''/stacks'' s = (Return (resp, Some err), s') \<longrightarrow>
         GetStacks L m s = (Return (None, Some err), s'))
    \<and> (SendRequest L m ''/networks'' s = (Return (resp, Some err), s') \<longrightarrow>
         GetNetworks L m s = (Return (None, Some err), s'))"
    by (rule bulk_transport_error)
  show "\<forall>resp err s'.
      (\<forall>v. SendRequest L m ''/containers'' s = (Return (resp, None), s') \<and>
           json_Unmarshal_Containers L (elems resp) None = (v, Some err) \<longrightarrow>
           GetContainers L m s = (Return (v, Some err), s'))
    \<and> (\<forall>v. SendRequest L m ''/hosts'' s = (Return (resp, None), s') \<and>
           json_Unmarshal_Hosts L (elems resp) None = (v, Some err) \<longrightarrow>
           GetHosts L m s = (Return (v, Some err), s'))
    \<and> (\<forall>v. SendRequest L m ''/services'' s = (Return (resp, None), s') \<and>
           json_Unmarshal_Services L (elems resp) None = (v, Some err) \<longrightarrow>
           GetServices L m s = (Return (v, Some err), s'))
    \<and> (\<forall>v. SendRequest L m ''/stacks'' s = (Return (resp, None), s') \<and>
           json_Unmarshal_Stacks L (elems resp) None = (v, Some err) \<longrightarrow>
           GetStacks L m s = (Return (v, Some err), s'))
    \<and> (\<forall>v. SendRequest L m ''/networks'' s = (Return (resp, None), s') \<and>
           json_Unmarshal_Networks L (elems resp) None = (v, Some err) \<longrightarrow>
           GetNetworks L m s = (Return (v, Some err), s'))"
    by (rule bulk_decode_error)
qed

theorem slices_returned_with_errors_witness:
  "GetServiceContainers test_lib test_client ''web'' ''front'' [] =
     (Return (Some [], Some (LibraryError ''dial tcp: connection refused'')), [])
 \<and> GetContainers test_lib test_client [] =
     (Return (None, Some (LibraryError ''dial tcp: connection refused'')), [])"
proof -
  let ?e = "LibraryError ''dial tcp: connection refused''"
  have h: "SendRequest test_lib test_client ''/containers'' [] = (Return (None, Some ?e), [])"
    by (simp add: test_SendRequest_refused)
  note t = slices_returned_with_errors [of test_lib test_client "''web''" "''front''" "[]"]
  note t3 = t [THEN conjunct2, THEN conjunct2, THEN conjunct1]
  note t4 = t [THEN conjunct2, THEN conjunct2, THEN conjunct2, THEN conjunct1]
  have a: "GetContainers test_lib test_client [] = (Return (None, Some ?e), [])"
    by (rule t4 [THEN spec, THEN spec, THEN spec, THEN conjunct1, THEN mp, OF h])
  have b: "GetServiceContainers test_lib test_client ''web'' ''front'' [] =
     (Return (Some [], Some ?e), [])"
    by (rule t3 [THEN spec, THEN spec, THEN spec, THEN mp, OF a])
  show ?thesis by (rule conjI [OF b a])
qed

end
